theory Spec2Isabelle
  imports Complex_Main "HOL-Library.Stream"
begin

section \<open>Ash Diver blueprint generator: data model\<close>

text \<open>
  The tile constants of \<^verbatim>\<open>generate_blueprint.py\<close>
  (\<^verbatim>\<open>T_AIR = 0, T_TOP = 1, T_FILL = 2, T_GOAL = 8, T_SPAWN = 9\<close>).
  The generator only ever stores these five constants in the grid.
\<close>

datatype tile = T_AIR | T_TOP | T_FILL | T_GOAL | T_SPAWN

text \<open>The exceptions Python and numpy raise on the paths modelled here.\<close>

datatype error = IndexError | ValueError | TypeError

text \<open>
  The grid is the numpy array \<^verbatim>\<open>self.grid\<close> of shape \<^verbatim>\<open>(height, width)\<close>: a list of
  rows, indexed \<^verbatim>\<open>grid[y, x]\<close>.
\<close>

type_synonym grid = "tile list list"

definition wf_grid :: "int \<Rightarrow> int \<Rightarrow> grid \<Rightarrow> bool" where
  "wf_grid h w g = (0 \<le> h \<and> 0 \<le> w \<and> int (length g) = h \<and> list_all (\<lambda>row. int (length row) = w) g)"

text \<open>
  \<^verbatim>\<open>grid[y, x]\<close> and \<^verbatim>\<open>grid[y, x] = v\<close> where the source has already checked
  \<^verbatim>\<open>0 <= x < w and 0 <= y < h\<close>.
\<close>

definition cell :: "grid \<Rightarrow> int \<Rightarrow> int \<Rightarrow> tile" where
  "cell g y x = g ! nat y ! nat x"

definition set_cell :: "grid \<Rightarrow> int \<Rightarrow> int \<Rightarrow> tile \<Rightarrow> grid" where
  "set_cell g y x v = g[nat y := (g ! nat y)[nat x := v]]"

text \<open>
  numpy integer indexing where the source checks nothing: an index \<open>i\<close> with
  \<open>-n \<le> i < 0\<close> counts from the end, an index outside \<open>[-n, n)\<close> raises IndexError.
\<close>

definition np_index :: "int \<Rightarrow> int \<Rightarrow> error + int" where
  "np_index n i =
     (if 0 \<le> i \<and> i < n then Inr i
      else if - n \<le> i \<and> i < 0 then Inr (n + i)
      else Inl IndexError)"

definition np_get1 :: "'a list \<Rightarrow> int \<Rightarrow> error + 'a" where
  "np_get1 xs i =
     (case np_index (int (length xs)) i of
        Inl e \<Rightarrow> Inl e
      | Inr j \<Rightarrow> Inr (xs ! nat j))"

definition grid_width :: "grid \<Rightarrow> int" where
  "grid_width g = (case g of [] \<Rightarrow> 0 | row # _ \<Rightarrow> int (length row))"

definition np_get2 :: "grid \<Rightarrow> int \<Rightarrow> int \<Rightarrow> error + tile" where
  "np_get2 g y x =
     (case np_index (int (length g)) y of
        Inl e \<Rightarrow> Inl e
      | Inr j \<Rightarrow>
          (case np_index (int (length (g ! nat j))) x of
             Inl e \<Rightarrow> Inl e
           | Inr i \<Rightarrow> Inr (cell g j i)))"

definition np_set2 :: "grid \<Rightarrow> int \<Rightarrow> int \<Rightarrow> tile \<Rightarrow> error + grid" where
  "np_set2 g y x v =
     (case np_index (int (length g)) y of
        Inl e \<Rightarrow> Inl e
      | Inr j \<Rightarrow>
          (case np_index (int (length (g ! nat j))) x of
             Inl e \<Rightarrow> Inl e
           | Inr i \<Rightarrow> Inr (set_cell g j i v)))"

text \<open>Python's \<^verbatim>\<open>range(a, b)\<close> over integers.\<close>

definition py_range :: "int \<Rightarrow> int \<Rightarrow> int list" where
  "py_range a b = [a..b - 1]"

section \<open>Step 9: T\_TOP detection\<close>

text \<open>
  \<^verbatim>\<open>_step9_top_detection\<close>: \<^verbatim>\<open>air_above = grid[:-1, :] == T_AIR\<close>,
  \<^verbatim>\<open>is_fill = grid[1:, :] == T_FILL\<close>, and rows \<open>1..h-1\<close> are replaced by
  \<^verbatim>\<open>np.where(air_above & is_fill, T_TOP, grid[1:, :])\<close>. Row 0 is not written.
\<close>

definition top_row :: "tile list \<Rightarrow> tile list \<Rightarrow> tile list" where
  "top_row up row = map2 (\<lambda>a c. if a = T_AIR \<and> c = T_FILL then T_TOP else c) up row"

definition top_detection :: "grid \<Rightarrow> grid" where
  "top_detection g = take 1 g @ map2 top_row (butlast g) (tl g)"

section \<open>Configuration, random generator and generator state\<close>

text \<open>
  \<^verbatim>\<open>BlueprintConfig\<close>, without the two export fields (\<^verbatim>\<open>output_dir\<close>, \<^verbatim>\<open>png_scale\<close>),
  which the generator never reads.
\<close>

record BlueprintConfig =
  seed :: int
  width :: int
  height :: int
  surface_y_min :: int
  surface_y_max :: int
  surface_step_max :: int
  num_tunnels :: int
  tunnel_min_width :: int
  tunnel_vertical_clearance :: int
  tunnel_branch_chance :: real
  num_caves :: int
  cave_radius_min :: int
  cave_radius_max :: int
  cave_noise_strength :: real
  min_region_size :: int

text \<open>
  \<^verbatim>\<open>self.rng = np.random.default_rng(seed)\<close> is numpy's generator. It is modelled as an
  arbitrary infinite stream of raw draws; every call consumes one raw draw per value it
  returns and maps it into the range numpy documents for the call. Any sequence of
  in-range results numpy can return is the image of some stream, so a property proved for
  all streams holds for numpy's generator under every seed.
\<close>

type_synonym rng = "nat stream"

text \<open>\<^verbatim>\<open>rng.random()\<close>: a double in \<open>[0, 1)\<close> with 53 random bits.\<close>

definition rng_random :: "rng \<Rightarrow> real \<times> rng" where
  "rng_random r = (real (shd r mod 2 ^ 53) / 2 ^ 53, stl r)"

text \<open>
  The float literals \<^verbatim>\<open>0.6\<close>, \<^verbatim>\<open>0.8\<close>, \<^verbatim>\<open>0.3\<close> and \<^verbatim>\<open>0.4\<close> that the draws are compared
  with are the doubles nearest to these decimals; the comparison of two doubles is exact.
\<close>

definition lit_0_6 :: real where
  "lit_0_6 = 5404319552844595 / 2 ^ 53"

definition lit_0_8 :: real where
  "lit_0_8 = 3602879701896397 / 2 ^ 52"

definition lit_0_3 :: real where
  "lit_0_3 = 5404319552844595 / 2 ^ 54"

definition lit_0_4 :: real where
  "lit_0_4 = 3602879701896397 / 2 ^ 53"

text \<open>\<^verbatim>\<open>rng.integers(lo, hi)\<close>: an integer in \<open>[lo, hi)\<close>; ValueError when \<open>lo \<ge> hi\<close>.\<close>

definition rng_integers :: "int \<Rightarrow> int \<Rightarrow> rng \<Rightarrow> error + (int \<times> rng)" where
  "rng_integers lo hi r =
     (if hi \<le> lo then Inl ValueError
      else Inr (lo + int (shd r) mod (hi - lo), stl r))"

text \<open>\<^verbatim>\<open>rng.choice([-1, 1])\<close>.\<close>

definition rng_choice_dir :: "rng \<Rightarrow> int \<times> rng" where
  "rng_choice_dir r = ([- 1, 1] ! (shd r mod 2), stl r)"

text \<open>\<^verbatim>\<open>rng.random(n)\<close>: \<open>n\<close> doubles.\<close>

fun rng_random_n :: "nat \<Rightarrow> rng \<Rightarrow> real list \<times> rng" where
  "rng_random_n 0 r = ([], r)"
| "rng_random_n (Suc n) r =
     (case rng_random r of (u, r') \<Rightarrow>
        (case rng_random_n n r' of (us, r'') \<Rightarrow> (u # us, r'')))"

text \<open>
  \<^verbatim>\<open>rng.choice(n, k, replace=False)\<close> with \<open>k \<le> n\<close>: \<open>k\<close> distinct indices below \<open>n\<close>,
  drawn one after the other from the indices not yet taken (\<open>pool\<close>).
\<close>

fun rng_sample :: "nat list \<Rightarrow> nat \<Rightarrow> rng \<Rightarrow> nat list \<times> rng" where
  "rng_sample pool 0 r = ([], r)"
| "rng_sample pool (Suc k) r =
     (if pool = [] then ([], r)
      else (let i = shd r mod length pool in
            case rng_sample (take i pool @ drop (Suc i) pool) k (stl r) of
              (rest, r') \<Rightarrow> (pool ! i # rest, r')))"

definition rng_choice_n :: "nat \<Rightarrow> nat \<Rightarrow> rng \<Rightarrow> nat list \<times> rng" where
  "rng_choice_n n k r = rng_sample [0..<n] k r"

text \<open>
  The floating-point and hash-order computations of numpy and CPython that the generator
  calls are parameters of the model:
  \<^item> \<open>linspace_int w n\<close> is \<^verbatim>\<open>np.linspace(w * 0.1, w * 0.9, n, dtype=int)\<close>, the start
    columns of the tunnels;
  \<^item> \<open>cave_inside c surface_max cx cy us x y\<close> is the test
    \<^verbatim>\<open>dx * dx + dy * dy < r * r\<close> of \<^verbatim>\<open>_step4_caves\<close> for the cave centred at \<open>(cx, cy)\<close>
    whose 36 radius draws are \<open>us\<close>;
  \<^item> \<open>set_list S\<close> is \<^verbatim>\<open>list(surface_set)\<close>, the order in which CPython enumerates a set.
\<close>

record numpy_env =
  linspace_int :: "int \<Rightarrow> int \<Rightarrow> int list"
  cave_inside :: "BlueprintConfig \<Rightarrow> int \<Rightarrow> int \<Rightarrow> int \<Rightarrow> real list \<Rightarrow> int \<Rightarrow> int \<Rightarrow> bool"
  set_list :: "(int \<times> int) list \<Rightarrow> (int \<times> int) list"

text \<open>The attributes of \<^verbatim>\<open>BlueprintGenerator\<close>.\<close>

record generator =
  cfg :: BlueprintConfig
  rng :: rng
  grid :: grid
  surface_line :: "int list option"

text \<open>
  \<^verbatim>\<open>__init__\<close>: \<^verbatim>\<open>np.full((height, width), T_FILL)\<close> raises ValueError on a negative
  dimension. The stream \<open>r\<close> is what \<^verbatim>\<open>default_rng(cfg.seed)\<close> produces.
\<close>

definition BlueprintGenerator :: "BlueprintConfig \<Rightarrow> rng \<Rightarrow> error + generator" where
  "BlueprintGenerator c r =
     (if height c < 0 \<or> width c < 0 then Inl ValueError
      else Inr \<lparr>cfg = c, rng = r,
                grid = replicate (nat (height c)) (replicate (nat (width c)) T_FILL),
                surface_line = None\<rparr>)"

text \<open>Reading \<^verbatim>\<open>self.surface_line\<close> before step 2 has set it fails on \<^verbatim>\<open>None\<close>.\<close>

definition the_surface :: "generator \<Rightarrow> error + int list" where
  "the_surface st = (case surface_line st of None \<Rightarrow> Inl TypeError | Some s \<Rightarrow> Inr s)"

text \<open>\<^verbatim>\<open>int(self.surface_line.max())\<close>: ValueError on an empty array.\<close>

definition np_max :: "int list \<Rightarrow> error + int" where
  "np_max xs = (case xs of [] \<Rightarrow> Inl ValueError | x # rest \<Rightarrow> Inr (fold max rest x))"

definition np_min :: "int list \<Rightarrow> error + int" where
  "np_min xs = (case xs of [] \<Rightarrow> Inl ValueError | x # rest \<Rightarrow> Inr (fold min rest x))"

section \<open>Step 1 and step 2: init and surface\<close>

definition step1_init :: "generator \<Rightarrow> generator" where
  "step1_init st = st\<lparr>grid := map (map (\<lambda>_. T_FILL)) (grid st)\<rparr>"

text \<open>\<^verbatim>\<open>np.clip(a, lo, hi)\<close> is \<^verbatim>\<open>minimum(hi, maximum(a, lo))\<close>.\<close>

definition np_clip :: "int \<Rightarrow> int \<Rightarrow> int \<Rightarrow> int" where
  "np_clip a lo hi = min hi (max a lo)"

text \<open>
  The stop of the slice \<^verbatim>\<open>[:y]\<close> on an axis of length \<open>n\<close>: a negative \<open>y\<close> counts from
  the end, and the result is clamped to \<open>[0, n]\<close>.
\<close>

definition slice_stop :: "int \<Rightarrow> int \<Rightarrow> int" where
  "slice_stop n y = (if y < 0 then max 0 (n + y) else min y n)"

text \<open>\<^verbatim>\<open>self.grid[:y, x] = T_AIR\<close> for a column \<open>x\<close> of \<^verbatim>\<open>range(w)\<close>.\<close>

definition fill_sky :: "grid \<Rightarrow> int \<Rightarrow> int \<Rightarrow> grid" where
  "fill_sky g y x =
     fold (\<lambda>r g'. set_cell g' r x T_AIR) (py_range 0 (slice_stop (int (length g)) y)) g"

text \<open>
  The loop \<^verbatim>\<open>for x in range(w)\<close> of \<^verbatim>\<open>_step2_surface\<close>; its state is the current height
  \<open>y\<close>, the generator, the array \<^verbatim>\<open>surface\<close> and the grid.
\<close>

fun surface_loop ::
  "BlueprintConfig \<Rightarrow> int list \<Rightarrow> int \<times> rng \<times> int list \<times> grid \<Rightarrow>
   error + (int \<times> rng \<times> int list \<times> grid)" where
  "surface_loop c [] s = Inr s"
| "surface_loop c (x # xs) (y, r, surface, g) =
     (case rng_integers (- surface_step_max c) (surface_step_max c + 1) r of
        Inl e \<Rightarrow> Inl e
      | Inr (dy, r') \<Rightarrow>
          (let y' = np_clip (y + dy) (surface_y_min c) (surface_y_max c)
           in surface_loop c xs (y', r', surface[nat x := y'], fill_sky g y' x)))"

definition step2_surface :: "generator \<Rightarrow> error + generator" where
  "step2_surface st =
     (let c = cfg st; w = width c in
      case rng_integers (surface_y_min c) (surface_y_max c + 1) (rng st) of
        Inl e \<Rightarrow> Inl e
      | Inr (y, r) \<Rightarrow>
          (case surface_loop c (py_range 0 w) (y, r, replicate (nat w) 0, grid st) of
             Inl e \<Rightarrow> Inl e
           | Inr (y', r', surface, g) \<Rightarrow>
               Inr (st\<lparr>rng := r', grid := g, surface_line := Some surface\<rparr>)))"

section \<open>Step 3: tunnels\<close>

text \<open>
  A guarded write of T\_AIR: \<^verbatim>\<open>if 0 <= cx < w and 0 <= cy < h: self.grid[cy, cx] = T_AIR\<close>.
\<close>

definition carve_air :: "int \<Rightarrow> int \<Rightarrow> grid \<Rightarrow> int \<Rightarrow> int \<Rightarrow> grid" where
  "carve_air w h g cy cx =
     (if 0 \<le> cx \<and> cx < w \<and> 0 \<le> cy \<and> cy < h then set_cell g cy cx T_AIR else g)"

text \<open>
  The cross-section block of \<^verbatim>\<open>_carve_tunnel\<close> (it occurs twice there, for the walk and
  for the branch): \<^verbatim>\<open>for dx in range(-half, half + 1): for dy in range(clearance)\<close>.
\<close>

definition carve_cross_section :: "int \<Rightarrow> int \<Rightarrow> int \<Rightarrow> int \<Rightarrow> int \<Rightarrow> int \<Rightarrow> grid \<Rightarrow> grid" where
  "carve_cross_section w h half clearance x y g =
     fold (\<lambda>dx g'. fold (\<lambda>dy g''. carve_air w h g'' (y + dy) (x + dx)) (py_range 0 clearance) g')
       (py_range (- half) (half + 1)) g"

text \<open>
  The branch loop \<^verbatim>\<open>for _ in range(branch_len)\<close> with its \<^verbatim>\<open>break\<close>; the first argument
  counts the iterations left.
\<close>

fun branch_loop ::
  "int \<Rightarrow> int \<Rightarrow> int \<Rightarrow> int \<Rightarrow> int \<Rightarrow> nat \<Rightarrow> int \<times> int \<times> rng \<times> grid \<Rightarrow> int \<times> int \<times> rng \<times> grid" where
  "branch_loop w h half clearance branch_dir 0 s = s"
| "branch_loop w h half clearance branch_dir (Suc n) (bx, by, r, g) =
     (let g' = carve_cross_section w h half clearance bx by g;
          bx1 = bx + branch_dir
      in case rng_random r of (u, r') \<Rightarrow>
         (let by' = (if u < lit_0_4 then by + 1 else by);
              bx' = max half (min bx1 (w - 1 - half))
          in if h - 2 \<le> by' then (bx', by', r', g')
             else branch_loop w h half clearance branch_dir n (bx', by', r', g')))"

text \<open>
  One iteration of \<^verbatim>\<open>while y < max_depth\<close> in \<^verbatim>\<open>_carve_tunnel\<close>: the state is the walk
  position, the generator and the grid. \<^verbatim>\<open>rng.integers(10, 30)\<close> cannot raise.
\<close>

definition tunnel_iter ::
  "BlueprintConfig \<Rightarrow> int \<Rightarrow> int \<Rightarrow> int \<times> int \<times> rng \<times> grid \<Rightarrow> int \<times> int \<times> rng \<times> grid" where
  "tunnel_iter c half clearance s =
     (case s of (x, y, r, g) \<Rightarrow>
      (let w = width c; h = height c;
           g1 = carve_cross_section w h half clearance x y g
       in case rng_random r of (direction, r1) \<Rightarrow>
          (let y1 = (if direction < lit_0_6 then y + 1 else y);
               x1 = (if direction < lit_0_6 then x
                     else if direction < lit_0_8 then max half (min (x - 1) (w - 1 - half))
                     else max half (min (x + 1) (w - 1 - half)))
           in case rng_random r1 of (step, r2) \<Rightarrow>
              (let y2 = (if step < lit_0_3 then y1 + 1 else y1)
               in case rng_random r2 of (b, r3) \<Rightarrow>
                  (if b < tunnel_branch_chance c \<and> y2 < h - 20 then
                     (let branch_len = 10 + int (shd r3) mod 20; r4 = stl r3
                      in case rng_choice_dir r4 of (branch_dir, r5) \<Rightarrow>
                         (case branch_loop w h half clearance branch_dir (nat branch_len) (x1, y2, r5, g1) of
                            (bx, by, r6, g2) \<Rightarrow> (x1, y2, r6, g2)))
                   else (x1, y2, r3, g1))))))"

text \<open>
  The walk itself. It returns only when \<open>y\<close> has reached \<^verbatim>\<open>max_depth = h - 5\<close>; a walk that
  never gets there has the value \<open>None\<close>.
\<close>

partial_function (option) tunnel_walk ::
  "BlueprintConfig \<Rightarrow> int \<Rightarrow> int \<Rightarrow> int \<times> int \<times> rng \<times> grid \<Rightarrow> (rng \<times> grid) option" where
  "tunnel_walk c half clearance s =
     (if fst (snd s) < height c - 5
      then tunnel_walk c half clearance (tunnel_iter c half clearance s)
      else Some (fst (snd (snd s)), snd (snd (snd s))))"

declare tunnel_walk.simps [code]

text \<open>\<^verbatim>\<open>_carve_tunnel(start_x, min_w, clearance)\<close>; \<^verbatim>\<open>self.surface_line[start_x]\<close> is unchecked.\<close>

definition carve_tunnel ::
  "BlueprintConfig \<Rightarrow> int list \<Rightarrow> int \<Rightarrow> int \<Rightarrow> int \<Rightarrow> rng \<times> grid \<Rightarrow> (error + rng \<times> grid) option" where
  "carve_tunnel c surface start_x min_w clearance s =
     (case np_get1 surface start_x of
        Inl e \<Rightarrow> Some (Inl e)
      | Inr y \<Rightarrow>
          (case tunnel_walk c (min_w div 2) clearance (start_x, y, fst s, snd s) of
             None \<Rightarrow> None
           | Some s' \<Rightarrow> Some (Inr s')))"

fun tunnels_loop ::
  "BlueprintConfig \<Rightarrow> int list \<Rightarrow> int list \<Rightarrow> rng \<times> grid \<Rightarrow> (error + rng \<times> grid) option" where
  "tunnels_loop c surface [] s = Some (Inr s)"
| "tunnels_loop c surface (sx # sxs) s =
     (case carve_tunnel c surface sx (tunnel_min_width c) (tunnel_vertical_clearance c) s of
        None \<Rightarrow> None
      | Some (Inl e) \<Rightarrow> Some (Inl e)
      | Some (Inr s') \<Rightarrow> tunnels_loop c surface sxs s')"

text \<open>\<^verbatim>\<open>_step3_tunnels\<close>; \<^verbatim>\<open>np.linspace\<close> raises ValueError on a negative count.\<close>

definition step3_tunnels :: "numpy_env \<Rightarrow> generator \<Rightarrow> (error + generator) option" where
  "step3_tunnels env st =
     (let c = cfg st in
      if num_tunnels c < 0 then Some (Inl ValueError)
      else (case the_surface st of
              Inl e \<Rightarrow> Some (Inl e)
            | Inr surface \<Rightarrow>
                (case tunnels_loop c surface (linspace_int env (width c) (num_tunnels c))
                        (rng st, grid st) of
                   None \<Rightarrow> None
                 | Some (Inl e) \<Rightarrow> Some (Inl e)
                 | Some (Inr (r, g)) \<Rightarrow> Some (Inr (st\<lparr>rng := r, grid := g\<rparr>)))))"

section \<open>Step 4: caves\<close>

text \<open>
  One cave of \<^verbatim>\<open>_step4_caves\<close>: two integer draws for the centre, 36 radius draws, then
  every cell of the clamped bounding box that passes the floating-point test is set to
  T\_AIR. The rows and columns of the box are clamped to the grid by the source
  (\<^verbatim>\<open>max(0, ...)\<close>, \<^verbatim>\<open>min(h, ...)\<close>), so the write is in range.
\<close>

definition carve_cave ::
  "numpy_env \<Rightarrow> BlueprintConfig \<Rightarrow> int \<Rightarrow> rng \<times> grid \<Rightarrow> error + rng \<times> grid" where
  "carve_cave env c surface_max s =
     (let w = width c; h = height c; r_max = cave_radius_max c in
      case rng_integers (r_max + 2) (w - r_max - 2) (fst s) of
        Inl e \<Rightarrow> Inl e
      | Inr (cx, r1) \<Rightarrow>
          (case rng_integers surface_max (h - r_max - 2) r1 of
             Inl e \<Rightarrow> Inl e
           | Inr (cy, r2) \<Rightarrow>
               (case rng_random_n 36 r2 of (us, r3) \<Rightarrow>
                  Inr (r3,
                    fold (\<lambda>y g.
                        fold (\<lambda>x g'.
                            if cave_inside env c surface_max cx cy us x y
                            then set_cell g' y x T_AIR else g')
                          (py_range (max 0 (cx - r_max - 2)) (min w (cx + r_max + 2))) g)
                      (py_range (max 0 (cy - r_max - 2)) (min h (cy + r_max + 2)))
                      (snd s)))))"

fun caves_loop ::
  "numpy_env \<Rightarrow> BlueprintConfig \<Rightarrow> int \<Rightarrow> nat \<Rightarrow> rng \<times> grid \<Rightarrow> error + rng \<times> grid" where
  "caves_loop env c surface_max 0 s = Inr s"
| "caves_loop env c surface_max (Suc n) s =
     (case carve_cave env c surface_max s of
        Inl e \<Rightarrow> Inl e
      | Inr s' \<Rightarrow> caves_loop env c surface_max n s')"

definition step4_caves :: "numpy_env \<Rightarrow> generator \<Rightarrow> error + generator" where
  "step4_caves env st =
     (let c = cfg st in
      case the_surface st of
        Inl e \<Rightarrow> Inl e
      | Inr surface \<Rightarrow>
          (case np_max surface of
             Inl e \<Rightarrow> Inl e
           | Inr m \<Rightarrow>
               (case caves_loop env c (m + 10) (nat (num_caves c)) (rng st, grid st) of
                  Inl e \<Rightarrow> Inl e
                | Inr (r, g) \<Rightarrow> Inr (st\<lparr>rng := r, grid := g\<rparr>))))"

section \<open>Step 5: flood fill and region filter\<close>

text \<open>
  The four neighbours in the order of the source:
  \<^verbatim>\<open>((x - 1, y), (x + 1, y), (x, y - 1), (x, y + 1))\<close>. Coordinates are pairs \<open>(x, y)\<close>.
\<close>

definition neighbours :: "int \<times> int \<Rightarrow> (int \<times> int) list" where
  "neighbours p = (case p of (x, y) \<Rightarrow> [(x - 1, y), (x + 1, y), (x, y - 1), (x, y + 1)])"

text \<open>
  The bitmap \<^verbatim>\<open>visited\<close> (a boolean array of the grid's shape, read and written only at
  coordinates the source has checked to be in range) is the set of coordinates whose
  entry is True. The body of the neighbour loop of \<^verbatim>\<open>_bfs_flood\<close>:
\<close>

definition visit ::
  "int \<Rightarrow> int \<Rightarrow> grid \<Rightarrow> (int \<times> int) set \<times> (int \<times> int) list \<Rightarrow> int \<times> int \<Rightarrow>
   (int \<times> int) set \<times> (int \<times> int) list" where
  "visit w h g s n =
     (case s of (visited, queue) \<Rightarrow>
      (case n of (nx, ny) \<Rightarrow>
        if 0 \<le> nx \<and> nx < w \<and> 0 \<le> ny \<and> ny < h \<and> (nx, ny) \<notin> visited \<and> cell g ny nx = T_AIR
        then (insert (nx, ny) visited, queue @ [(nx, ny)])
        else (visited, queue)))"

definition visit_all ::
  "int \<Rightarrow> int \<Rightarrow> grid \<Rightarrow> int \<times> int \<Rightarrow> (int \<times> int) set \<times> (int \<times> int) list \<Rightarrow>
   (int \<times> int) set \<times> (int \<times> int) list" where
  "visit_all w h g p s = fold (\<lambda>n s'. visit w h g s' n) (neighbours p) s"

definition unvisited :: "int \<Rightarrow> int \<Rightarrow> (int \<times> int) set \<Rightarrow> (int \<times> int) set" where
  "unvisited w h visited = ({0..<w} \<times> {0..<h}) - visited"

lemma visit_measure:
  "visit w h g (v, q) n = (v', q') \<Longrightarrow>
   2 * card (unvisited w h v') + length q' \<le> 2 * card (unvisited w h v) + length q"
proof -
  assume a: "visit w h g (v, q) n = (v', q')"
  obtain nx ny where n: "n = (nx, ny)" by (cases n)
  show ?thesis
  proof (cases "0 \<le> nx \<and> nx < w \<and> 0 \<le> ny \<and> ny < h \<and> (nx, ny) \<notin> v \<and> cell g ny nx = T_AIR")
    case True
    then have v': "v' = insert (nx, ny) v" and q': "q' = q @ [(nx, ny)]"
      using a n by (auto simp: visit_def)
    have fin: "finite (unvisited w h v)" by (simp add: unvisited_def)
    have mem: "(nx, ny) \<in> unvisited w h v" using True by (simp add: unvisited_def)
    have "unvisited w h v' = unvisited w h v - {(nx, ny)}"
      using v' by (auto simp: unvisited_def)
    then have "card (unvisited w h v') = card (unvisited w h v) - 1"
      using fin mem by simp
    moreover have "0 < card (unvisited w h v)" using fin mem by (auto simp: card_gt_0_iff)
    ultimately show ?thesis using q' by simp
  next
    case False
    then have "v' = v" "q' = q" using a n by (auto simp: visit_def)
    then show ?thesis by simp
  qed
qed

lemma visit_fold_measure:
  "fold (\<lambda>n s'. visit w h g s' n) ns (v, q) = (v', q') \<Longrightarrow>
   2 * card (unvisited w h v') + length q' \<le> 2 * card (unvisited w h v) + length q"
proof (induction ns arbitrary: v q)
  case Nil
  then show ?case by simp
next
  case (Cons n ns)
  obtain v1 q1 where s1: "visit w h g (v, q) n = (v1, q1)" by (cases "visit w h g (v, q) n")
  have "2 * card (unvisited w h v') + length q' \<le> 2 * card (unvisited w h v1) + length q1"
    using Cons.IH[of v1 q1] Cons.prems s1 by simp
  then show ?case using visit_measure[OF s1] by linarith
qed

lemma visit_all_measure:
  "visit_all w h g p (v, q) = (v', q') \<Longrightarrow>
   2 * card (unvisited w h v') + length q' < 2 * card (unvisited w h v) + length (p # q)"
  using visit_fold_measure[of w h g "neighbours p" v q v' q'] by (simp add: visit_all_def)

text \<open>
  The loop \<^verbatim>\<open>while queue\<close> of \<^verbatim>\<open>_bfs_flood\<close>: pop the head, append it to the region,
  visit its neighbours. It returns the bitmap (which the caller shares) and the region.
\<close>

function bfs_loop ::
  "int \<Rightarrow> int \<Rightarrow> grid \<Rightarrow> (int \<times> int) set \<Rightarrow> (int \<times> int) list \<Rightarrow> (int \<times> int) list \<Rightarrow>
   (int \<times> int) set \<times> (int \<times> int) list" where
  "bfs_loop w h g visited [] region = (visited, region)"
| "bfs_loop w h g visited (p # queue) region =
     (case visit_all w h g p (visited, queue) of
        (visited', queue') \<Rightarrow> bfs_loop w h g visited' queue' (region @ [p]))"
  by pat_completeness auto
termination
proof (relation "measure (\<lambda>(w, h, g, v, q, r). 2 * card (unvisited w h v) + length q)", goal_cases)
  case 1
  show ?case by simp
next
  case (2 w h g visited p queue region visited' queue')
  then have "visit_all w h g p (visited, queue) = (visited', queue')" by simp
  from visit_all_measure[OF this] show ?case by simp
qed

text \<open>\<^verbatim>\<open>_bfs_flood(sx, sy, visited)\<close>.\<close>

definition bfs_flood ::
  "int \<Rightarrow> int \<Rightarrow> grid \<Rightarrow> int \<Rightarrow> int \<Rightarrow> (int \<times> int) set \<Rightarrow> (int \<times> int) set \<times> (int \<times> int) list" where
  "bfs_flood w h g sx sy visited = bfs_loop w h g (insert (sx, sy) visited) [(sx, sy)] []"

text \<open>
  The body of the double loop of \<^verbatim>\<open>_step5_filter\<close> at the cell \<open>(x, y)\<close>; the state is the
  grid and the bitmap.
\<close>

definition filter_cell ::
  "int \<Rightarrow> int \<Rightarrow> int \<Rightarrow> grid \<times> (int \<times> int) set \<Rightarrow> int \<times> int \<Rightarrow> grid \<times> (int \<times> int) set" where
  "filter_cell w h min_size s p =
     (case s of (g, visited) \<Rightarrow>
      (case p of (x, y) \<Rightarrow>
        if cell g y x = T_AIR \<and> (x, y) \<notin> visited then
          (case bfs_flood w h g x y visited of
             (visited', region) \<Rightarrow>
               if int (length region) < min_size
               then (fold (\<lambda>q g'. set_cell g' (snd q) (fst q) T_FILL) region g, visited')
               else (g, visited'))
        else (g, visited)))"

text \<open>The cells in the order of \<^verbatim>\<open>for y in range(h): for x in range(w)\<close>.\<close>

definition scan_cells :: "int \<Rightarrow> int \<Rightarrow> (int \<times> int) list" where
  "scan_cells w h = concat (map (\<lambda>y. map (\<lambda>x. (x, y)) (py_range 0 w)) (py_range 0 h))"

definition step5_filter :: "generator \<Rightarrow> generator" where
  "step5_filter st =
     (let c = cfg st; w = width c; h = height c in
      st\<lparr>grid := fst (fold (\<lambda>p s. filter_cell w h (min_region_size c) s p)
                         (scan_cells w h) (grid st, {}))\<rparr>)"

section \<open>Step 6: connect\<close>

text \<open>\<^verbatim>\<open>_find_air_regions\<close>: the regions in the order they are found.\<close>

definition find_cell ::
  "int \<Rightarrow> int \<Rightarrow> grid \<Rightarrow> (int \<times> int) set \<times> (int \<times> int) list list \<Rightarrow> int \<times> int \<Rightarrow>
   (int \<times> int) set \<times> (int \<times> int) list list" where
  "find_cell w h g s p =
     (case s of (visited, regions) \<Rightarrow>
      (case p of (x, y) \<Rightarrow>
        if cell g y x = T_AIR \<and> (x, y) \<notin> visited then
          (case bfs_flood w h g x y visited of
             (visited', region) \<Rightarrow> (visited', regions @ [region]))
        else (visited, regions)))"

definition find_air_regions :: "int \<Rightarrow> int \<Rightarrow> grid \<Rightarrow> (int \<times> int) list list" where
  "find_air_regions w h g = snd (fold (\<lambda>p s. find_cell w h g s p) (scan_cells w h) ({}, []))"

text \<open>
  The search for the region holding the topmost air tile: the state is
  \<^verbatim>\<open>(min_y, surface_region_idx)\<close>, updated for every tile of every region.
\<close>

definition topmost_step :: "nat \<Rightarrow> int \<times> nat \<Rightarrow> int \<times> int \<Rightarrow> int \<times> nat" where
  "topmost_step i s p = (if snd p < fst s then (snd p, i) else s)"

definition surface_region_idx :: "int \<Rightarrow> (int \<times> int) list list \<Rightarrow> nat" where
  "surface_region_idx h regions =
     snd (fold (\<lambda>(i, region) s. fold (\<lambda>p s'. topmost_step i s' p) region s)
            (zip [0..<length regions] regions) (h, 0))"

text \<open>\<^verbatim>\<open>_carve_l_tunnel(a, b)\<close>: the horizontal leg at row \<open>ay\<close>, then the vertical leg at column \<open>bx\<close>.\<close>

definition carve_l_tunnel :: "BlueprintConfig \<Rightarrow> int \<times> int \<Rightarrow> int \<times> int \<Rightarrow> grid \<Rightarrow> grid" where
  "carve_l_tunnel c a b g =
     (case a of (ax, ay) \<Rightarrow> (case b of (bx, by) \<Rightarrow>
      (let half = tunnel_min_width c div 2; w = width c; h = height c;
           g1 = fold (\<lambda>x g'. fold (\<lambda>dy g''. carve_air w h g'' (ay + dy) x)
                               (py_range (- half) (half + 1)) g')
                  (py_range (min ax bx) (max ax bx + 1)) g
       in fold (\<lambda>y g'. fold (\<lambda>dx g''. carve_air w h g'' y (bx + dx))
                          (py_range (- half) (half + 1)) g')
            (py_range (min ay by) (max ay by + 1)) g1)))"

text \<open>
  The sampled nearest-pair search: the state is \<^verbatim>\<open>(best_dist, best_a, best_b)\<close>, with
  \<open>None\<close> for the initial \<^verbatim>\<open>float("inf")\<close> and the two \<^verbatim>\<open>None\<close>s.
\<close>

definition pair_step ::
  "int \<times> int \<Rightarrow> (int \<times> (int \<times> int) \<times> (int \<times> int)) option \<Rightarrow> int \<times> int \<Rightarrow>
   (int \<times> (int \<times> int) \<times> (int \<times> int)) option" where
  "pair_step a best b =
     (let d = \<bar>fst a - fst b\<bar> + \<bar>snd a - snd b\<bar> in
      case best of
        None \<Rightarrow> Some (d, a, b)
      | Some (best_dist, _, _) \<Rightarrow> if d < best_dist then Some (d, a, b) else best)"

definition closest_pair ::
  "(int \<times> int) list \<Rightarrow> (int \<times> int) list \<Rightarrow> (int \<times> (int \<times> int) \<times> (int \<times> int)) option" where
  "closest_pair sample_region sample_surface =
     fold (\<lambda>a best. fold (\<lambda>b best'. pair_step a best' b) sample_surface best) sample_region None"

text \<open>
  The body of the second loop of \<^verbatim>\<open>_step6_connect\<close> for the region of index \<open>i\<close>; the
  state is the generator, the grid and \<^verbatim>\<open>surface_set\<close> (kept as the list of its members;
  \<open>set_list\<close> gives the order of \<^verbatim>\<open>list(surface_set)\<close>).
\<close>

definition connect_region ::
  "numpy_env \<Rightarrow> BlueprintConfig \<Rightarrow> nat \<Rightarrow> nat \<times> (int \<times> int) list \<Rightarrow>
   rng \<times> grid \<times> (int \<times> int) list \<Rightarrow> rng \<times> grid \<times> (int \<times> int) list" where
  "connect_region env c idx ir s =
     (case ir of (i, region) \<Rightarrow> (case s of (r, g, surface_set) \<Rightarrow>
      if i = idx then s
      else
        (let sample_size = min 200 (length region) in
         case rng_choice_n (length region) sample_size r of (js, r1) \<Rightarrow>
           (let sample_region = map (\<lambda>j. region ! j) js;
                surface_list = set_list env surface_set
            in case rng_choice_n (length surface_list) (min 200 (length surface_list)) r1 of
                 (ks, r2) \<Rightarrow>
                   (let sample_surface = map (\<lambda>j. surface_list ! j) ks in
                    case closest_pair sample_region sample_surface of
                      None \<Rightarrow> (r2, g, surface_set)
                    | Some (d, a, b) \<Rightarrow>
                        (r2, carve_l_tunnel c a b g, List.union surface_set region))))))"

definition step6_connect :: "numpy_env \<Rightarrow> generator \<Rightarrow> generator" where
  "step6_connect env st =
     (let c = cfg st; w = width c; h = height c;
          regions = find_air_regions w h (grid st)
      in if length regions \<le> 1 then st
         else
           (let idx = surface_region_idx h regions in
            case fold (connect_region env c idx) (zip [0..<length regions] regions)
                   (rng st, grid st, regions ! idx) of
              (r, g, surface_set) \<Rightarrow> st\<lparr>rng := r, grid := g\<rparr>))"

section \<open>Step 7: surface entry check\<close>

text \<open>
  The inner loop of \<^verbatim>\<open>_step7_surface_entry_check\<close> for one column: the rows come from
  \<^verbatim>\<open>range(surf_y, min(underground_start + 5, h))\<close>, so they are below \<open>h\<close> but are not
  checked against 0, and \<^verbatim>\<open>self.grid[y, x]\<close> is numpy indexing. The result is the flag
  \<^verbatim>\<open>connected\<close>.
\<close>

fun column_connected :: "grid \<Rightarrow> int \<Rightarrow> int list \<Rightarrow> error + bool" where
  "column_connected g x [] = Inr True"
| "column_connected g x (y # ys) =
     (case np_get2 g y x of
        Inl e \<Rightarrow> Inl e
      | Inr t \<Rightarrow> if t \<noteq> T_AIR then Inr False else column_connected g x ys)"

text \<open>The loop over the columns, with its early \<^verbatim>\<open>return\<close>: True when an entry was found.\<close>

fun entry_scan :: "int \<Rightarrow> int \<Rightarrow> int list \<Rightarrow> grid \<Rightarrow> int list \<Rightarrow> error + bool" where
  "entry_scan h underground_start surface g [] = Inr False"
| "entry_scan h underground_start surface g (x # xs) =
     (case np_get1 surface x of
        Inl e \<Rightarrow> Inl e
      | Inr surf_y \<Rightarrow>
          (case column_connected g x (py_range surf_y (min (underground_start + 5) h)) of
             Inl e \<Rightarrow> Inl e
           | Inr conn \<Rightarrow>
               if conn then Inr True
               else entry_scan h underground_start surface g xs))"

text \<open>
  The shaft: \<^verbatim>\<open>if 0 <= xx < w: self.grid[y, xx] = T_AIR\<close>, the row again unchecked
  against 0.
\<close>

fun shaft_row :: "int \<Rightarrow> int \<Rightarrow> int \<Rightarrow> int list \<Rightarrow> grid \<Rightarrow> error + grid" where
  "shaft_row w cx y [] g = Inr g"
| "shaft_row w cx y (dx # dxs) g =
     (let xx = cx + dx in
      if 0 \<le> xx \<and> xx < w then
        (case np_set2 g y xx T_AIR of
           Inl e \<Rightarrow> Inl e
         | Inr g' \<Rightarrow> shaft_row w cx y dxs g')
      else shaft_row w cx y dxs g)"

fun shaft :: "int \<Rightarrow> int \<Rightarrow> int \<Rightarrow> int list \<Rightarrow> grid \<Rightarrow> error + grid" where
  "shaft w cx half [] g = Inr g"
| "shaft w cx half (y # ys) g =
     (case shaft_row w cx y (py_range (- half) (half + 1)) g of
        Inl e \<Rightarrow> Inl e
      | Inr g' \<Rightarrow> shaft w cx half ys g')"

definition step7_surface_entry_check :: "generator \<Rightarrow> error + generator" where
  "step7_surface_entry_check st =
     (let c = cfg st; w = width c; h = height c in
      case the_surface st of
        Inl e \<Rightarrow> Inl e
      | Inr surface \<Rightarrow>
          (case np_max surface of
             Inl e \<Rightarrow> Inl e
           | Inr m \<Rightarrow>
               (let underground_start = m + 2 in
                case entry_scan h underground_start surface (grid st) (py_range 0 w) of
                  Inl e \<Rightarrow> Inl e
                | Inr found \<Rightarrow>
                    if found then Inr st
                    else
                      (let cx = w div 2 in
                       case np_get1 surface cx of
                         Inl e \<Rightarrow> Inl e
                       | Inr surf_y \<Rightarrow>
                           (case shaft w cx (tunnel_min_width c div 2)
                                   (py_range surf_y (min (underground_start + 10) h)) (grid st) of
                              Inl e \<Rightarrow> Inl e
                            | Inr g \<Rightarrow> Inr (st\<lparr>grid := g\<rparr>))))))"

section \<open>Step 8: spawn and goal\<close>

text \<open>
  \<^verbatim>\<open>self.surface_line[max(0, x - 2):x + 3]\<close> for a column \<open>x\<close> of the spawn loop (both slice
  bounds are non-negative there), and the flatness \<^verbatim>\<open>window.max() - window.min()\<close>.
\<close>

definition window :: "int list \<Rightarrow> int \<Rightarrow> int list" where
  "window surface x = drop (nat (max 0 (x - 2))) (take (nat (x + 3)) surface)"

definition flatness :: "int list \<Rightarrow> int \<Rightarrow> error + int" where
  "flatness surface x =
     (case np_max (window surface x) of
        Inl e \<Rightarrow> Inl e
      | Inr hi \<Rightarrow> (case np_min (window surface x) of Inl e \<Rightarrow> Inl e | Inr lo \<Rightarrow> Inr (hi - lo)))"

text \<open>
  The spawn loop: the state is \<^verbatim>\<open>(best_score, spawn_x)\<close>, with \<open>None\<close> for the initial
  \<^verbatim>\<open>float("inf")\<close>.
\<close>

fun spawn_loop :: "int list \<Rightarrow> int \<Rightarrow> int list \<Rightarrow> int option \<times> int \<Rightarrow> error + int option \<times> int" where
  "spawn_loop surface center_x [] s = Inr s"
| "spawn_loop surface center_x (x # xs) (best_score, spawn_x) =
     (case flatness surface x of
        Inl e \<Rightarrow> Inl e
      | Inr fl \<Rightarrow>
          (let dist = \<bar>x - center_x\<bar>; score = fl * 10 + dist in
           if (case best_score of None \<Rightarrow> True | Some b \<Rightarrow> score < b)
           then spawn_loop surface center_x xs (Some score, x)
           else spawn_loop surface center_x xs (best_score, spawn_x)))"

text \<open>
  The goal loop. The score of a cell is \<^verbatim>\<open>depth * 2 + dist\<close>; the state is
  \<^verbatim>\<open>(best_goal_score, best_goal)\<close>, initially \<^verbatim>\<open>(-1.0, None)\<close>. The cells are visited in the
  order \<^verbatim>\<open>for y in range(h - 1, -1, -1): for x in range(w)\<close>.
\<close>

definition goal_score :: "int \<Rightarrow> int \<Rightarrow> int \<times> int \<Rightarrow> int" where
  "goal_score spawn_x spawn_y p = snd p * 2 + (\<bar>fst p - spawn_x\<bar> + \<bar>snd p - spawn_y\<bar>)"

definition goal_step ::
  "grid \<Rightarrow> int \<Rightarrow> int \<Rightarrow> int \<times> (int \<times> int) option \<Rightarrow> int \<times> int \<Rightarrow> int \<times> (int \<times> int) option" where
  "goal_step g spawn_x spawn_y s p =
     (if cell g (snd p) (fst p) = T_AIR then
        (let score = goal_score spawn_x spawn_y p in
         if fst s < score then (score, Some p) else s)
      else s)"

definition goal_cells :: "int \<Rightarrow> int \<Rightarrow> (int \<times> int) list" where
  "goal_cells w h = concat (map (\<lambda>y. map (\<lambda>x. (x, y)) (py_range 0 w)) (rev (py_range 0 h)))"

definition goal_scan :: "int \<Rightarrow> int \<Rightarrow> grid \<Rightarrow> int \<Rightarrow> int \<Rightarrow> int \<times> (int \<times> int) option" where
  "goal_scan w h g spawn_x spawn_y =
     fold (\<lambda>p s. goal_step g spawn_x spawn_y s p) (goal_cells w h) (- 1, None)"

text \<open>
  \<^verbatim>\<open>_step8_spawn_goal\<close>. The two reads \<^verbatim>\<open>self.surface_line[spawn_x]\<close> and the write
  \<^verbatim>\<open>self.grid[spawn_y, spawn_x] = T_SPAWN\<close> are plain numpy indexing, with no check.
\<close>

definition step8_spawn_goal :: "generator \<Rightarrow> error + generator" where
  "step8_spawn_goal st =
     (let c = cfg st; w = width c; h = height c in
      case the_surface st of
        Inl e \<Rightarrow> Inl e
      | Inr surface \<Rightarrow>
          (let center_x = w div 2 in
           case spawn_loop surface center_x
                  (py_range (max 5 (center_x - w div 4)) (min (w - 5) (center_x + w div 4)))
                  (None, center_x) of
             Inl e \<Rightarrow> Inl e
           | Inr (best_score, spawn_x) \<Rightarrow>
               (case np_get1 surface spawn_x of
                  Inl e \<Rightarrow> Inl e
                | Inr sy \<Rightarrow>
                    (let spawn_y = sy - 1 in
                     case np_set2 (grid st) spawn_y spawn_x T_SPAWN of
                       Inl e \<Rightarrow> Inl e
                     | Inr g \<Rightarrow>
                         (case snd (goal_scan w h g spawn_x spawn_y) of
                            None \<Rightarrow> Inr (st\<lparr>grid := g\<rparr>)
                          | Some best_goal \<Rightarrow>
                              Inr (st\<lparr>grid := set_cell g (snd best_goal) (fst best_goal) T_GOAL\<rparr>))))))"

section \<open>Step 9 and the pipeline\<close>

definition step9_top_detection :: "generator \<Rightarrow> generator" where
  "step9_top_detection st = st\<lparr>grid := top_detection (grid st)\<rparr>"

text \<open>
  \<^verbatim>\<open>generate\<close>: the nine steps in order. An exception of a step ends the run (\<open>Inl\<close>); a
  tunnel walk that never returns makes the run \<open>None\<close>.
\<close>

definition generate :: "numpy_env \<Rightarrow> generator \<Rightarrow> (error + generator) option" where
  "generate env st =
     (case step2_surface (step1_init st) of
        Inl e \<Rightarrow> Some (Inl e)
      | Inr s2 \<Rightarrow>
          (case step3_tunnels env s2 of
             None \<Rightarrow> None
           | Some (Inl e) \<Rightarrow> Some (Inl e)
           | Some (Inr s3) \<Rightarrow>
               (case step4_caves env s3 of
                  Inl e \<Rightarrow> Some (Inl e)
                | Inr s4 \<Rightarrow>
                    (case step7_surface_entry_check (step6_connect env (step5_filter s4)) of
                       Inl e \<Rightarrow> Some (Inl e)
                     | Inr s7 \<Rightarrow>
                         (case step8_spawn_goal s7 of
                            Inl e \<Rightarrow> Some (Inl e)
                          | Inr s8 \<Rightarrow> Some (Inr (step9_top_detection s8)))))))"

text \<open>\<^verbatim>\<open>BlueprintGenerator(cfg).generate()\<close>, for the stream \<open>r\<close> of the seed.\<close>

definition run_pipeline :: "numpy_env \<Rightarrow> BlueprintConfig \<Rightarrow> rng \<Rightarrow> (error + generator) option" where
  "run_pipeline env c r =
     (case BlueprintGenerator c r of
        Inl e \<Rightarrow> Some (Inl e)
      | Inr st \<Rightarrow> generate env st)"

section \<open>Verification\<close>

text \<open>
  Rule 2 of \<^verbatim>\<open>verify_blueprint\<close>: \<^verbatim>\<open>np.argwhere(grid == T_SPAWN)\<close> lists the positions
  \<open>(sy, sx)\<close> in row-major order; the rule passes (True) when there is exactly one and
  \<^verbatim>\<open>abs(sy - expected_y) > 2\<close> is false, for \<^verbatim>\<open>expected_y = int(surface_line[sx]) - 1\<close>.
\<close>

definition spawn_positions :: "grid \<Rightarrow> (int \<times> int) list" where
  "spawn_positions g =
     concat (map (\<lambda>y. concat (map (\<lambda>x. if cell g y x = T_SPAWN then [(y, x)] else [])
                                   (py_range 0 (grid_width g))))
                 (py_range 0 (int (length g))))"

definition verify_spawn :: "grid \<Rightarrow> int list \<Rightarrow> bool" where
  "verify_spawn g surface =
     (case spawn_positions g of
        [] \<Rightarrow> False
      | [(sy, sx)] \<Rightarrow> \<not> 2 < \<bar>sy - (surface ! nat sx - 1)\<bar>
      | _ \<Rightarrow> False)"

section \<open>Notions used to state the properties\<close>

text \<open>The elements of a list at which \<open>f\<close> is maximal, in the order of the list.\<close>

definition maxima :: "('a \<Rightarrow> int) \<Rightarrow> 'a list \<Rightarrow> 'a list" where
  "maxima f cs = filter (\<lambda>p. list_all (\<lambda>q. f q \<le> f p) cs) cs"

text \<open>
  The T\_AIR cells in the order of the goal scan, and those of them whose score is maximal.
\<close>

definition goal_candidates :: "int \<Rightarrow> int \<Rightarrow> grid \<Rightarrow> (int \<times> int) list" where
  "goal_candidates w h g = filter (\<lambda>p. cell g (snd p) (fst p) = T_AIR) (goal_cells w h)"

definition best_cells :: "int \<Rightarrow> int \<Rightarrow> grid \<Rightarrow> int \<Rightarrow> int \<Rightarrow> (int \<times> int) list" where
  "best_cells w h g spawn_x spawn_y =
     maxima (goal_score spawn_x spawn_y) (goal_candidates w h g)"

text \<open>
  A small configuration whose surface is flat at height 0, and the parameters of the model
  for it: no tunnel start columns (\<^verbatim>\<open>num_tunnels = 0\<close>), no cave (\<^verbatim>\<open>num_caves = 0\<close>).
  \<open>state_flat\<close> is the state of the generator after step 7 for this configuration: the
  entry check has carved its shaft in the columns 5 to 7.
\<close>

definition cfg_flat :: BlueprintConfig where
  "cfg_flat = \<lparr>seed = 42, width = 12, height = 8, surface_y_min = 0, surface_y_max = 0,
     surface_step_max = 2, num_tunnels = 0, tunnel_min_width = 3, tunnel_vertical_clearance = 3,
     tunnel_branch_chance = 15 / 100, num_caves = 0, cave_radius_min = 5, cave_radius_max = 18,
     cave_noise_strength = 35 / 100, min_region_size = 50\<rparr>"

definition env_plain :: numpy_env where
  "env_plain = \<lparr>linspace_int = (\<lambda>w n. []), cave_inside = (\<lambda>c m cx cy us x y. False),
     set_list = (\<lambda>xs. xs)\<rparr>"

definition shaft_row_flat :: "tile list" where
  "shaft_row_flat = [T_FILL, T_FILL, T_FILL, T_FILL, T_FILL, T_AIR, T_AIR, T_AIR,
                     T_FILL, T_FILL, T_FILL, T_FILL]"

definition state_flat :: generator where
  "state_flat = \<lparr>cfg = cfg_flat, rng = sconst 0, grid = replicate 8 shaft_row_flat,
     surface_line = Some (replicate 12 0)\<rparr>"

section \<open>Basic facts about ranges and the grid\<close>

lemma py_range_Nil: "b \<le> a \<Longrightarrow> py_range a b = []"
  by (simp add: py_range_def)

lemma py_range_Cons: "a < b \<Longrightarrow> py_range a b = a # py_range (a + 1) b"
  by (simp add: py_range_def upto_rec1)

lemma wf_grid_nth: "wf_grid h w g \<Longrightarrow> 0 \<le> y \<Longrightarrow> y < h \<Longrightarrow> int (length (g ! nat y)) = w"
  by (auto simp: wf_grid_def list_all_length)

lemma cell_set_cell:
  assumes "wf_grid h w g" "0 \<le> y" "y < h" "0 \<le> x" "x < w" "0 \<le> y'" "0 \<le> x'"
  shows "cell (set_cell g y x v) y' x' = (if y' = y \<and> x' = x then v else cell g y' x')"
proof -
  have ly: "nat y < length g" using assms by (auto simp: wf_grid_def)
  have lx: "nat x < length (g ! nat y)" using wf_grid_nth[OF assms(1-3)] assms by auto
  show ?thesis
  proof (cases "y' = y")
    case True
    then show ?thesis
      using ly lx assms by (auto simp: cell_def set_cell_def nth_list_update)
  next
    case False
    then have "nat y' \<noteq> nat y" using assms by auto
    then show ?thesis using False by (simp add: cell_def set_cell_def)
  qed
qed

lemma wf_set_cell: "wf_grid h w g \<Longrightarrow> wf_grid h w (set_cell g y x v)"
proof -
  assume wf: "wf_grid h w g"
  have "int (length (g[nat y := (g ! nat y)[nat x := v]] ! n)) = w" if "n < length g" for n
  proof (cases "n = nat y")
    case True
    then show ?thesis using that wf by (simp add: wf_grid_def list_all_length)
  next
    case False
    then show ?thesis using that wf by (simp add: wf_grid_def list_all_length)
  qed
  then show ?thesis using wf by (simp add: wf_grid_def set_cell_def list_all_length)
qed

lemma top_detection_length: "length (top_detection g) = length g"
  by (cases g) (auto simp: top_detection_def)

lemma top_detection_row0: "0 < length g \<Longrightarrow> top_detection g ! 0 = g ! 0"
  by (cases g) (auto simp: top_detection_def)

lemma top_detection_row:
  assumes "Suc i < length g"
  shows "top_detection g ! Suc i = top_row (g ! i) (g ! Suc i)"
proof -
  obtain r rest where g: "g = r # rest" using assms by (cases g) auto
  have "i < length (zip (butlast g) (tl g))" using assms by simp
  then have "map2 top_row (butlast g) (tl g) ! i = top_row (butlast g ! i) (tl g ! i)"
    by simp
  moreover have "butlast g ! i = g ! i" using assms by (simp add: nth_butlast)
  moreover have "tl g ! i = g ! Suc i" using g by simp
  ultimately show ?thesis using g by (simp add: top_detection_def)
qed

lemma top_row_length: "length (top_row a r) = min (length a) (length r)"
  by (simp add: top_row_def)

lemma top_row_nth:
  "i < length a \<Longrightarrow> i < length r \<Longrightarrow>
   top_row a r ! i = (if a ! i = T_AIR \<and> r ! i = T_FILL then T_TOP else r ! i)"
  by (simp add: top_row_def)

lemma wf_top_detection:
  assumes "wf_grid h w g"
  shows "wf_grid h w (top_detection g)"
proof -
  have len: "int (length g) = h" and rows: "\<And>i. i < length g \<Longrightarrow> int (length (g ! i)) = w"
    and nn: "0 \<le> h" "0 \<le> w"
    using assms by (auto simp: wf_grid_def list_all_length)
  have "int (length (top_detection g ! i)) = w" if "i < length g" for i
  proof (cases i)
    case 0
    then show ?thesis using that rows[of 0] by (simp add: top_detection_row0)
  next
    case (Suc j)
    then show ?thesis
      using that rows[of j] rows[of "Suc j"]
      by (simp add: top_detection_row top_row_length)
  qed
  then show ?thesis
    using len nn by (simp add: wf_grid_def list_all_length top_detection_length)
qed

lemma cell_top_detection:
  assumes "wf_grid h w g" "0 \<le> y" "y < h" "0 \<le> x" "x < w"
  shows "cell (top_detection g) y x =
         (if 1 \<le> y \<and> cell g (y - 1) x = T_AIR \<and> cell g y x = T_FILL then T_TOP else cell g y x)"
proof -
  have len: "int (length g) = h" and rows: "\<And>i. i < length g \<Longrightarrow> int (length (g ! i)) = w"
    using assms by (auto simp: wf_grid_def list_all_length)
  show ?thesis
  proof (cases "nat y")
    case 0
    then have "y = 0" using assms by simp
    moreover have "0 < length g" using len assms by linarith
    ultimately show ?thesis by (simp add: cell_def top_detection_row0)
  next
    case (Suc j)
    then have y: "y = int j + 1" using assms by linarith
    have lj: "Suc j < length g" using Suc len assms by linarith
    have "nat x < length (g ! j)" "nat x < length (g ! Suc j)"
      using rows[of j] rows[of "Suc j"] lj assms by auto
    then show ?thesis
      using lj Suc y by (simp add: cell_def top_detection_row top_row_nth nat_add_distrib)
  qed
qed

lemma grid_eqI:
  assumes "wf_grid h w g" "wf_grid h w g'"
    and "\<And>y x. 0 \<le> y \<Longrightarrow> y < h \<Longrightarrow> 0 \<le> x \<Longrightarrow> x < w \<Longrightarrow> cell g y x = cell g' y x"
  shows "g = g'"
proof (rule nth_equalityI)
  show "length g = length g'" using assms(1,2) by (simp add: wf_grid_def)
next
  fix i assume i: "i < length g"
  have li: "int i < h" using i assms(1) by (simp add: wf_grid_def)
  have l1: "int (length (g ! i)) = w" using wf_grid_nth[OF assms(1), of "int i"] li by simp
  have l2: "int (length (g' ! i)) = w" using wf_grid_nth[OF assms(2), of "int i"] li by simp
  show "g ! i = g' ! i"
  proof (rule nth_equalityI)
    show "length (g ! i) = length (g' ! i)" using l1 l2 by simp
  next
    fix j assume "j < length (g ! i)"
    then have "int j < w" using l1 by simp
    then show "g ! i ! j = g' ! i ! j"
      using assms(3)[of "int i" "int j"] li by (simp add: cell_def)
  qed
qed

text \<open>The equations that evaluate the stages on a concrete state.\<close>

lemmas evals = BlueprintGenerator_def step1_init_def step2_surface_def rng_integers_def np_clip_def fill_sky_def slice_stop_def py_range_Cons py_range_Nil Let_def
  step3_tunnels_def the_surface_def step4_caves_def np_max_def np_min_def step5_filter_def scan_cells_def filter_cell_def cell_def set_cell_def
  step6_connect_def find_air_regions_def find_cell_def step7_surface_entry_check_def np_get1_def np_get2_def np_set2_def np_index_def grid_width_def
  step8_spawn_goal_def window_def flatness_def goal_scan_def goal_cells_def goal_step_def goal_score_def step9_top_detection_def top_detection_def top_row_def
  generate_def run_pipeline_def

section \<open>Idempotence of the top-tile pass\<close>

text \<open>
  Claim C9. Applying the T\_TOP derivation pass (T\_FILL with T\_AIR directly above becomes
  T\_TOP) twice gives the same grid as applying it once, for every rectangular grid.
\<close>

theorem top_detection_idempotent:
  assumes "wf_grid h w g"
  shows "top_detection (top_detection g) = top_detection g"
proof (rule grid_eqI[where h = h and w = w])
  show "wf_grid h w (top_detection (top_detection g))"
    using assms by (intro wf_top_detection)
  show "wf_grid h w (top_detection g)" using assms by (rule wf_top_detection)
next
  fix y x :: int
  assume b: "0 \<le> y" "y < h" "0 \<le> x" "x < w"
  have wf': "wf_grid h w (top_detection g)" using assms by (rule wf_top_detection)
  show "cell (top_detection (top_detection g)) y x = cell (top_detection g) y x"
  proof (cases "1 \<le> y")
    case True
    then have b': "0 \<le> y - 1" "y - 1 < h" using b by auto
    show ?thesis
      using cell_top_detection[OF wf' b] cell_top_detection[OF assms b]
        cell_top_detection[OF assms b' b(3,4)]
      by (auto split: if_splits)
  next
    case False
    then show ?thesis using cell_top_detection[OF wf' b] by simp
  qed
qed

theorem top_detection_idempotent_witness:
  "wf_grid 3 2 [[T_AIR, T_FILL], [T_FILL, T_AIR], [T_FILL, T_FILL]] \<and>
   top_detection (top_detection [[T_AIR, T_FILL], [T_FILL, T_AIR], [T_FILL, T_FILL]]) =
     [[T_AIR, T_FILL], [T_TOP, T_AIR], [T_FILL, T_TOP]]"
proof -
  have wf: "wf_grid 3 2 [[T_AIR, T_FILL], [T_FILL, T_AIR], [T_FILL, T_FILL]]"
    by (simp add: wf_grid_def)
  have "top_detection [[T_AIR, T_FILL], [T_FILL, T_AIR], [T_FILL, T_FILL]] =
        [[T_AIR, T_FILL], [T_TOP, T_AIR], [T_FILL, T_TOP]]"
    by (simp add: top_detection_def top_row_def)
  then show ?thesis using wf top_detection_idempotent[OF wf] by simp
qed

section \<open>Goal selection\<close>

lemma maxima_nonempty:
  assumes "cs \<noteq> []"
  shows "maxima f cs \<noteq> []"
proof -
  have "finite (f ` set cs)" "f ` set cs \<noteq> {}" using assms by auto
  then have "Max (f ` set cs) \<in> f ` set cs" by (rule Max_in)
  then obtain p where p: "p \<in> set cs" "f p = Max (f ` set cs)" by auto
  have "f q \<le> f p" if "q \<in> set cs" for q using that p(2) by simp
  then have "p \<in> set (maxima f cs)" using p(1) by (simp add: maxima_def list_all_iff)
  then show ?thesis by auto
qed

lemma maxima_is_max: "p \<in> set (maxima f cs) \<Longrightarrow> q \<in> set cs \<Longrightarrow> f q \<le> f p"
  by (simp add: maxima_def list_all_iff)

lemma hd_maxima_max:
  assumes "cs \<noteq> []" "q \<in> set cs"
  shows "f q \<le> f (hd (maxima f cs))"
  using maxima_is_max[of "hd (maxima f cs)" f cs q] maxima_nonempty[OF assms(1), of f] assms(2)
  by simp

lemma maxima_snoc:
  "maxima f (cs @ [x]) =
     (if cs = [] \<or> f (hd (maxima f cs)) < f x then [x]
      else maxima f cs @ (if f (hd (maxima f cs)) = f x then [x] else []))"
proof (cases "cs = []")
  case True
  then show ?thesis by (simp add: maxima_def)
next
  case False
  let ?m = "hd (maxima f cs)"
  have mmem: "?m \<in> set (maxima f cs)" using maxima_nonempty[OF False, of f] by simp
  then have mcs: "?m \<in> set cs" by (simp add: maxima_def)
  have mmax: "\<And>q. q \<in> set cs \<Longrightarrow> f q \<le> f ?m" using hd_maxima_max[OF False] by simp
  show ?thesis
  proof (cases "f ?m < f x")
    case True
    have "\<not> list_all (\<lambda>q. f q \<le> f p) (cs @ [x])" if "p \<in> set cs" for p
      using True mmax[OF that] by simp
    then have "filter (\<lambda>p. list_all (\<lambda>q. f q \<le> f p) (cs @ [x])) cs = []"
      by (simp add: filter_empty_conv)
    moreover have "list_all (\<lambda>q. f q \<le> f x) (cs @ [x])"
      using True mmax by (auto simp: list_all_iff intro: order_trans less_imp_le)
    ultimately show ?thesis using True by (simp add: maxima_def)
  next
    case nl: False
    have eq: "filter (\<lambda>p. list_all (\<lambda>q. f q \<le> f p) (cs @ [x])) cs = maxima f cs"
      unfolding maxima_def
    proof (rule filter_cong[OF refl])
      fix p assume "p \<in> set cs"
      show "list_all (\<lambda>q. f q \<le> f p) (cs @ [x]) = list_all (\<lambda>q. f q \<le> f p) cs"
      proof (cases "list_all (\<lambda>q. f q \<le> f p) cs")
        case True
        then have "f ?m \<le> f p" using mcs by (simp add: list_all_iff)
        then show ?thesis using True nl by simp
      next
        case False
        then show ?thesis by simp
      qed
    qed
    have "list_all (\<lambda>q. f q \<le> f x) (cs @ [x]) = (f ?m = f x)"
    proof
      assume "list_all (\<lambda>q. f q \<le> f x) (cs @ [x])"
      then have "f ?m \<le> f x" using mcs by (simp add: list_all_iff)
      then show "f ?m = f x" using nl by simp
    next
      assume "f ?m = f x"
      then show "list_all (\<lambda>q. f q \<le> f x) (cs @ [x])" using mmax by (auto simp: list_all_iff)
    qed
    then show ?thesis using nl False eq by (simp add: maxima_def)
  qed
qed

lemma goal_fold_first_max:
  assumes "\<And>p. p \<in> set ps \<Longrightarrow> 0 \<le> goal_score sx sy p"
  shows "fold (\<lambda>p s. goal_step g sx sy s p) ps (- 1, None) =
           (case maxima (goal_score sx sy) (filter (\<lambda>p. cell g (snd p) (fst p) = T_AIR) ps) of
              [] \<Rightarrow> (- 1, None)
            | p # rest \<Rightarrow> (goal_score sx sy p, Some p))"
  using assms
proof (induction ps rule: rev_induct)
  case Nil
  then show ?case by (simp add: maxima_def)
next
  case (snoc x xs)
  let ?cs = "filter (\<lambda>p. cell g (snd p) (fst p) = T_AIR) xs"
  have IH: "fold (\<lambda>p s. goal_step g sx sy s p) xs (- 1, None) =
           (case maxima (goal_score sx sy) ?cs of [] \<Rightarrow> (- 1, None)
            | p # rest \<Rightarrow> (goal_score sx sy p, Some p))"
    using snoc by simp
  have nn: "0 \<le> goal_score sx sy x" using snoc.prems by simp
  show ?case
  proof (cases "cell g (snd x) (fst x) = T_AIR")
    case False
    then show ?thesis using IH by (simp add: goal_step_def)
  next
    case True
    show ?thesis
    proof (cases "?cs = []")
      case e: True
      then show ?thesis using IH True nn by (simp add: goal_step_def maxima_def)
    next
      case ne: False
      then obtain m rest where m: "maxima (goal_score sx sy) ?cs = m # rest"
        using maxima_nonempty[OF ne, of "goal_score sx sy"]
        by (cases "maxima (goal_score sx sy) ?cs") auto
      then show ?thesis using IH True ne
        by (simp add: goal_step_def maxima_snoc Let_def)
    qed
  qed
qed

lemma goal_cells_nonneg: "p \<in> set (goal_cells w h) \<Longrightarrow> 0 \<le> snd p"
  by (auto simp: goal_cells_def py_range_def)

text \<open>
  Claim C3, as the code has it. Among the T\_AIR cells whose score
  \<open>depth * 2 + distance\<close> is maximal, the goal scan chooses the one it meets \<^emph>\<open>first\<close> in
  the bottom-to-top, row-major scan (the comparison \<^verbatim>\<open>score > best_goal_score\<close> is strict, so
  a later cell of equal score does not replace the current best); when there is no T\_AIR
  cell there is no goal.
\<close>

theorem goal_scan_first_found:
  "snd (goal_scan w h g spawn_x spawn_y) =
     (case best_cells w h g spawn_x spawn_y of [] \<Rightarrow> None | p # rest \<Rightarrow> Some p)"
proof -
  have "0 \<le> goal_score spawn_x spawn_y p" if "p \<in> set (goal_cells w h)" for p
    using goal_cells_nonneg[OF that] by (simp add: goal_score_def)
  from goal_fold_first_max[OF this, of "goal_cells w h" g]
  show ?thesis
    by (simp add: goal_scan_def best_cells_def goal_candidates_def
        split: list.splits)
qed

text \<open>
  Claim C3, as the specification words it (the last cell found wins), fails: in a grid of
  width 3 and height 2 whose top row is T\_AIR, T\_SPAWN, T\_AIR, the two T\_AIR cells have
  the same maximal score 1, the scan meets \<open>(0, 0)\<close> before \<open>(2, 0)\<close>, and the goal is
  \<open>(0, 0)\<close>.
\<close>

theorem goal_scan_tie_first_found:
  "best_cells 3 2 [[T_AIR, T_SPAWN, T_AIR], [T_FILL, T_FILL, T_FILL]] 1 0 = [(0, 0), (2, 0)] \<and>
   snd (goal_scan 3 2 [[T_AIR, T_SPAWN, T_AIR], [T_FILL, T_FILL, T_FILL]] 1 0) = Some (0, 0)"
  by (simp add: best_cells_def maxima_def goal_candidates_def goal_scan_def goal_cells_def goal_step_def
      goal_score_def cell_def py_range_Cons py_range_Nil Let_def)

section \<open>The Spawn write\<close>

text \<open>
  Claim C4 does not hold of the code. The write \<^verbatim>\<open>self.grid[spawn_y, spawn_x] = T_SPAWN\<close> of
  step 8 is neither clamped nor bounds-checked. For the state \<open>state_flat\<close>, whose surface
  height is 0 in the spawn column 6, the row is \<open>spawn_y = 0 - 1 = -1\<close>, and the write
  lands in the wrapped-around cell of the bottom row 7: step 8 returns the grid whose
  bottom row holds T\_SPAWN in column 6 (and T\_GOAL beside it), the other rows unchanged.
\<close>

theorem spawn_write_wraps_around:
  "np_get1 (replicate 12 0) 6 = Inr 0 \<and>
   step8_spawn_goal state_flat =
     Inr (state_flat\<lparr>grid := replicate 7 shaft_row_flat @
        [[T_FILL, T_FILL, T_FILL, T_FILL, T_FILL, T_GOAL, T_SPAWN, T_AIR,
          T_FILL, T_FILL, T_FILL, T_FILL]]\<rparr>)"
  by (simp add: state_flat_def shaft_row_flat_def cfg_flat_def step8_spawn_goal_def the_surface_def
      window_def flatness_def np_max_def np_min_def np_get1_def np_set2_def np_index_def
      goal_scan_def goal_cells_def goal_step_def goal_score_def cell_def set_cell_def
      py_range_Cons py_range_Nil Let_def eval_nat_numeral
      cong: prod.case_cong_weak let_weak_cong)

section \<open>The Spawn placement\<close>

text \<open>
  Claim C6 does not hold of the code. For the configuration \<open>cfg_flat\<close> (width 12, height
  8, surface heights all 0) the full pipeline returns a grid whose only T\_SPAWN cell is at
  row 7 of column 6, while the surface height of that column minus 1 is \<open>-1\<close>: the
  distance is 8, and rule 2 of \<^verbatim>\<open>verify_blueprint\<close> fails.
\<close>

theorem spawn_not_near_surface:
  "\<exists>st. run_pipeline env_plain cfg_flat (sconst 0) = Some (Inr st) \<and>
        surface_line st = Some (replicate 12 0) \<and>
        spawn_positions (grid st) = [(7, 6)] \<and>
        \<not> verify_spawn (grid st) (replicate 12 0)"
  by (simp add: evals cfg_flat_def env_plain_def spawn_positions_def verify_spawn_def eval_nat_numeral cong: prod.case_cong_weak let_weak_cong)

end
